theory Spec2Isabelle
  imports Complex_Main
begin

section \<open>Training a CLIP field: the notebook's evaluation and training code\<close>

text \<open>
  The development embeds the two functions of the notebook
  \<^verbatim>\<open>demo/3 - training a CLIP field.ipynb\<close>: \<^verbatim>\<open>zero_shot_eval\<close> and \<^verbatim>\<open>train\<close>.
  Floating-point tensors are idealised as real numbers; the one floating-point constant
  of the source, the bound of the temperature, is kept as the number it is. The
  collaborators the notebook imports (the field model, the classifier, the optimizer,
  the metric objects, \<^verbatim>\<open>F.cross_entropy\<close>, \<^verbatim>\<open>torch.log\<close>) are parameters of the
  definitions, so every theorem holds for all of them.
\<close>

subsection \<open>Exceptions\<close>

text \<open>
  Python exceptions are values. \<open>RuntimeError\<close> stands for the class and its
  subclasses, which is what \<^verbatim>\<open>except RuntimeError\<close> catches.
\<close>

datatype error = RuntimeError | ZeroDivisionError | IndexError | ValueError

subsection \<open>Tensors\<close>

text \<open>
  A one-dimensional tensor carries its element type. \<^verbatim>\<open>torch.zeros_like\<close> keeps the
  element type and the shape of its argument. \<^verbatim>\<open>Tensor.mean\<close> is defined for
  floating-point tensors only and raises \<^verbatim>\<open>RuntimeError\<close> on a boolean or an integer
  tensor. (The mean of an empty floating-point tensor is NaN in torch; the notebook never
  takes one.)
\<close>

datatype tensor = BoolTensor "bool list" | LongTensor "int list" | FloatTensor "real list"

fun zeros_like :: "tensor \<Rightarrow> tensor" where
  "zeros_like (BoolTensor bs) = BoolTensor (map (\<lambda>_. False) bs)"
| "zeros_like (LongTensor ns) = LongTensor (map (\<lambda>_. 0) ns)"
| "zeros_like (FloatTensor xs) = FloatTensor (map (\<lambda>_. 0) xs)"

fun tensor_mean :: "tensor \<Rightarrow> error + real" where
  "tensor_mean (BoolTensor bs) = Inl RuntimeError"
| "tensor_mean (LongTensor ns) = Inl RuntimeError"
| "tensor_mean (FloatTensor xs) = Inr (sum_list xs / real (length xs))"

text \<open>
  \<^verbatim>\<open>index != index.t()\<close> for a column \<open>index\<close> of shape \<open>(N, 1)\<close>: broadcasting gives
  the \<open>N \<times> N\<close> boolean matrix whose entry \<open>(i, j)\<close> compares element \<open>i\<close> with
  element \<open>j\<close>.
\<close>

definition ne_transpose :: "int list \<Rightarrow> bool list list" where
  "ne_transpose index = map (\<lambda>a. map (\<lambda>b. a \<noteq> b) index) index"

text \<open>\<^verbatim>\<open>.float()\<close> of a boolean matrix.\<close>

definition to_float :: "bool list list \<Rightarrow> real list list" where
  "to_float m = map (map (\<lambda>b. if b then 1 else 0)) m"

text \<open>\<^verbatim>\<open>torch.eye(n)\<close>.\<close>

definition eye :: "nat \<Rightarrow> real list list" where
  "eye n = map (\<lambda>i. map (\<lambda>j. if i = j then 1 else 0) [0..<n]) [0..<n]"

text \<open>Entrywise sum of two matrices of the same shape.\<close>

definition tensor_add :: "real list list \<Rightarrow> real list list \<Rightarrow> real list list" where
  "tensor_add a b = map2 (map2 (+)) a b"

subsection \<open>Batches\<close>

text \<open>
  The loader collates point samples into a dictionary of columns, one row per sample;
  a batch is the list of its samples and a column is read off with \<open>map\<close>. The two
  identifier columns are integer tensors, reshaped to \<open>(N, 1)\<close> by \<^verbatim>\<open>train\<close>; a column
  is the list of its \<open>N\<close> entries. \<^verbatim>\<open>batch_size\<close> is the length of the image column.
\<close>

record point_sample =
  xyz :: "real list"
  clip_vector :: "real list"
  clip_image_vector :: "real list"
  distance :: real
  semantic_weight :: real
  img_idx :: int
  label :: int

definition batch_image_label_index :: "point_sample list \<Rightarrow> int list" where
  "batch_image_label_index batch = map img_idx batch"

definition batch_language_label_index :: "point_sample list \<Rightarrow> int list" where
  "batch_language_label_index batch = map label batch"

definition batch_size :: "point_sample list \<Rightarrow> nat" where
  "batch_size batch = length (batch_image_label_index batch)"

subsection \<open>Pairwise label masks\<close>

definition image_label_mask :: "point_sample list \<Rightarrow> real list list" where
  "image_label_mask batch =
     tensor_add (to_float (ne_transpose (batch_image_label_index batch))) (eye (batch_size batch))"

definition language_label_mask :: "point_sample list \<Rightarrow> real list list" where
  "language_label_mask batch =
     tensor_add (to_float (ne_transpose (batch_language_label_index batch))) (eye (batch_size batch))"

subsection \<open>The classifier and the torch functions\<close>

text \<open>
  The classification extractor maps the predicted semantic and visual embeddings of a
  batch to one row of class probabilities per sample and knows the size of its class
  vocabulary.
\<close>

type_synonym matrix = "real list list"

record classifier =
  calculate_classifications :: "matrix \<Rightarrow> matrix \<Rightarrow> matrix"
  total_label_classes :: int

text \<open>
  \<^verbatim>\<open>F.cross_entropy(input, target)\<close> and the elementwise \<^verbatim>\<open>torch.log\<close> are taken as
  they come: the cross entropy may raise (a target outside the class range).
\<close>

record torch_functional =
  F_cross_entropy :: "matrix \<Rightarrow> int list \<Rightarrow> error + real"
  torch_log :: "real \<Rightarrow> real"

subsection \<open>Metric accumulators\<close>

text \<open>
  A metric object is mutable and may be registered under several names, so the
  accumulators live in a store from object addresses to accumulator states, and a metric
  dictionary maps names to addresses (in insertion order). Calling a metric on
  predictions and targets gives its new state and the exception, if one was raised;
  \<^verbatim>\<open>metric.compute().detach().cpu().item()\<close> gives a number or raises;
  \<^verbatim>\<open>metric.reset()\<close> gives the reset state.
\<close>

record 'm metric_class =
  metric_forward :: "'m \<Rightarrow> matrix \<Rightarrow> int list \<Rightarrow> 'm \<times> error option"
  metric_compute :: "'m \<Rightarrow> error + real"
  metric_reset :: "'m \<Rightarrow> 'm"

type_synonym 'm store = "nat \<Rightarrow> 'm"
type_synonym metric_dict = "(string \<times> nat) list"
type_synonym metric_calculators = "(string \<times> metric_dict) list"

subsection \<open>\<^verbatim>\<open>zero_shot_eval\<close>\<close>

definition ne_scalar :: "int list \<Rightarrow> int \<Rightarrow> bool list" where
  "ne_scalar xs c = map (\<lambda>x. x \<noteq> c) xs"

definition lt_scalar :: "int list \<Rightarrow> int \<Rightarrow> bool list" where
  "lt_scalar xs c = map (\<lambda>x. x < c) xs"

definition logical_and :: "bool list \<Rightarrow> bool list \<Rightarrow> bool list" where
  "logical_and a b = map2 (\<and>) a b"

definition torch_any :: "bool list \<Rightarrow> bool" where
  "torch_any bs = list_ex (\<lambda>b. b) bs"

text \<open>
  Indexing the rows of a tensor by a boolean mask keeps the rows where the mask is true,
  in order; torch raises \<^verbatim>\<open>IndexError\<close> when the mask's length is not the number of
  rows.
\<close>

definition mask_index :: "'a list \<Rightarrow> bool list \<Rightarrow> error + 'a list" where
  "mask_index xs bs =
     (if length xs \<noteq> length bs then Inl IndexError
      else Inr (map fst (filter snd (zip xs bs))))"

definition semseg_mask :: "classifier \<Rightarrow> int list \<Rightarrow> bool list" where
  "semseg_mask classifier language_label_index =
     logical_and (ne_scalar language_label_index (- 1))
       (lt_scalar language_label_index (total_label_classes classifier))"

text \<open>
  The loop \<^verbatim>\<open>for _, calculators in metric_calculators["semantic"].items()\<close>: each
  metric is called on the masked probabilities and labels; an exception stops the loop.
\<close>

fun update_metrics ::
  "'m metric_class \<Rightarrow> metric_dict \<Rightarrow> matrix \<Rightarrow> int list \<Rightarrow> 'm store \<Rightarrow> 'm store \<times> error option"
where
  "update_metrics M [] probs labels store = (store, None)"
| "update_metrics M ((name, a) # rest) probs labels store =
     (case metric_forward M (store a) probs labels of
        (s', Some e) \<Rightarrow> (store(a := s'), Some e)
      | (s', None) \<Rightarrow> update_metrics M rest probs labels (store(a := s')))"

text \<open>
  The result is the metric store after the call and either the exception raised or the
  classification loss returned. \<^verbatim>\<open>metric_calculators.get("semantic")\<close> is false for a
  missing key and for an empty dictionary. In the branch without a valid sample the
  source evaluates \<^verbatim>\<open>torch.zeros_like(semseg_mask).mean(dim=-1)\<close> on the boolean mask.
\<close>

definition zero_shot_eval ::
  "torch_functional \<Rightarrow> 'm metric_class \<Rightarrow> classifier \<Rightarrow> matrix \<Rightarrow> matrix \<Rightarrow> int list \<Rightarrow>
   metric_calculators \<Rightarrow> 'm store \<Rightarrow> 'm store \<times> (error + real)"
where
  "zero_shot_eval F M classifier predicted_label_latents predicted_image_latents
      language_label_index metric_calculators store =
     (let class_probs =
            calculate_classifications classifier predicted_label_latents predicted_image_latents;
          semseg = semseg_mask classifier language_label_index
      in if \<not> torch_any semseg then (store, tensor_mean (zeros_like (BoolTensor semseg)))
         else
           (case mask_index class_probs semseg of
              Inl e \<Rightarrow> (store, Inl e)
            | Inr masked_class_prob \<Rightarrow>
           (case mask_index language_label_index semseg of
              Inl e \<Rightarrow> (store, Inl e)
            | Inr masked_labels \<Rightarrow>
           (case F_cross_entropy F (map (map (torch_log F)) masked_class_prob) masked_labels of
              Inl e \<Rightarrow> (store, Inl e)
            | Inr classification_loss \<Rightarrow>
           (case map_of metric_calculators ''semantic'' of
              None \<Rightarrow> (store, Inr classification_loss)
            | Some semantic \<Rightarrow>
                if semantic = [] then (store, Inr classification_loss)
                else
                  (case update_metrics M semantic masked_class_prob masked_labels store of
                     (store', Some e) \<Rightarrow> (store', Inl e)
                   | (store', None) \<Rightarrow> (store', Inr classification_loss)))))))"

subsection \<open>The field model, the optimizer and the training state\<close>

text \<open>
  The model's parameters are its weights and the learned temperature. The forward pass
  gives the predicted semantic and visual embeddings; \<^verbatim>\<open>compute_loss\<close> is the model's
  contrastive loss of predictions against targets under a pairwise mask and per-sample
  weights. A loss tensor that carries a gradient is the function from parameters to its
  value, which is what \<^verbatim>\<open>backward\<close> differentiates. The three calls
  \<^verbatim>\<open>optim.zero_grad\<close>, \<^verbatim>\<open>loss.backward\<close>, \<^verbatim>\<open>optim.step\<close> are one function of that
  loss, the optimizer's state and the current parameters. Failures of the forward pass,
  of the loss and of the optimizer are fatal in the source and are not modelled.
\<close>

record 'w params =
  weights :: 'w
  temperature :: real

record 'w field_model =
  forward :: "'w params \<Rightarrow> matrix \<Rightarrow> matrix \<times> matrix"
  compute_loss :: "'w params \<Rightarrow> matrix \<Rightarrow> matrix \<Rightarrow> matrix \<Rightarrow> real list \<Rightarrow> real"
  np_log_100 :: real

text \<open>
  The last field is the bound the temperature is clamped against. The source passes
  \<^verbatim>\<open>max=np.log(100.0)\<close>, a floating-point number, and \<^verbatim>\<open>torch.clamp\<close> compares in the
  floating-point type of the model's temperature tensor; the bound is therefore the
  number that this type holds for \<^verbatim>\<open>np.log(100.0)\<close>, which is near \<open>ln 100\<close> but not
  equal to it. For a single-precision temperature it is the following number, the
  single-precision value nearest to the double \<^verbatim>\<open>np.log(100.0)\<close>.
\<close>

definition float32_log_100 :: real where
  "float32_log_100 = 4828871 / 1048576"

type_synonym ('w, 'o) optimizer = "('w params \<Rightarrow> real) \<Rightarrow> 'o \<Rightarrow> 'w params \<Rightarrow> 'o \<times> 'w params"

type_synonym report = "string \<rightharpoonup> real"

record ('w, 'o, 'm) train_state =
  model_params :: "'w params"
  optim_state :: 'o
  metric_store :: "'m store"
  wandb_log :: "report list"

record totals =
  total_loss :: real
  label_loss :: real
  image_loss :: real
  total_samples :: nat
  total_classification_loss :: real

definition initial_totals :: totals where
  "initial_totals = \<lparr>total_loss = 0, label_loss = 0, image_loss = 0, total_samples = 0,
     total_classification_loss = 0\<rparr>"

text \<open>The keyword arguments of \<^verbatim>\<open>train\<close> and the notebook's constants they default to.\<close>

record train_config =
  exp_decay_coeff :: real
  image_to_label_loss_ratio :: real
  label_to_image_loss_ratio :: real

definition IMAGE_TO_LABEL_CLIP_LOSS_SCALE :: real where
  "IMAGE_TO_LABEL_CLIP_LOSS_SCALE = 1.0"

definition LABEL_TO_IMAGE_LOSS_SCALE :: real where
  "LABEL_TO_IMAGE_LOSS_SCALE = 1.0"

definition EXP_DECAY_COEFF :: real where
  "EXP_DECAY_COEFF = 0.5"

definition default_config :: train_config where
  "default_config = \<lparr>exp_decay_coeff = EXP_DECAY_COEFF,
     image_to_label_loss_ratio = IMAGE_TO_LABEL_CLIP_LOSS_SCALE,
     label_to_image_loss_ratio = LABEL_TO_IMAGE_LOSS_SCALE\<rparr>"

subsection \<open>One batch of \<^verbatim>\<open>train\<close>\<close>

definition image_weights :: "train_config \<Rightarrow> point_sample list \<Rightarrow> real list" where
  "image_weights cfg batch = map (\<lambda>d. exp (- exp_decay_coeff cfg * d)) (map distance batch)"

definition contrastive_loss_labels ::
  "'w field_model \<Rightarrow> point_sample list \<Rightarrow> 'w params \<Rightarrow> real" where
  "contrastive_loss_labels m batch \<theta> =
     compute_loss m \<theta> (fst (forward m \<theta> (map xyz batch))) (map clip_vector batch)
       (language_label_mask batch) (map semantic_weight batch)"

definition contrastive_loss_images ::
  "'w field_model \<Rightarrow> train_config \<Rightarrow> point_sample list \<Rightarrow> 'w params \<Rightarrow> real" where
  "contrastive_loss_images m cfg batch \<theta> =
     compute_loss m \<theta> (snd (forward m \<theta> (map xyz batch))) (map clip_image_vector batch)
       (image_label_mask batch) (image_weights cfg batch)"

definition contrastive_loss ::
  "'w field_model \<Rightarrow> train_config \<Rightarrow> point_sample list \<Rightarrow> 'w params \<Rightarrow> real" where
  "contrastive_loss m cfg batch \<theta> =
     image_to_label_loss_ratio cfg * contrastive_loss_images m cfg batch \<theta>
     + label_to_image_loss_ratio cfg * contrastive_loss_labels m batch \<theta>"

text \<open>
  \<^verbatim>\<open>torch.clamp(x, max=m)\<close> on numbers of one floating-point type: the smaller of the
  two, with no rounding. (A NaN, which \<^verbatim>\<open>torch.clamp\<close> hands back unchanged, is not a
  number of the model.)
\<close>

definition clamp_max :: "real \<Rightarrow> real \<Rightarrow> real" where
  "clamp_max x m = min x m"

text \<open>
  The body of the loop over the loader. The source computes the two contrastive losses
  before it calls \<^verbatim>\<open>zero_shot_eval\<close>; they have no effect on the state. An exception
  of \<^verbatim>\<open>zero_shot_eval\<close> leaves the loop before the optimizer is reached; the metric
  objects keep what was done to them. After the step the temperature is clamped and the
  totals grow by the values the losses had at the parameters of the forward pass.
\<close>

definition train_batch ::
  "'w field_model \<Rightarrow> ('w, 'o) optimizer \<Rightarrow> torch_functional \<Rightarrow> 'm metric_class \<Rightarrow> classifier \<Rightarrow>
   train_config \<Rightarrow> metric_calculators \<Rightarrow> point_sample list \<Rightarrow> ('w, 'o, 'm) train_state \<Rightarrow>
   totals \<Rightarrow> ('w, 'o, 'm) train_state \<times> (error + totals)"
where
  "train_batch m optim F M classifier cfg metric_calculators batch st tot =
     (let \<theta> = model_params st;
          predicted = forward m \<theta> (map xyz batch);
          evaluated = zero_shot_eval F M classifier (fst predicted) (snd predicted)
                        (batch_language_label_index batch) metric_calculators (metric_store st)
      in case snd evaluated of
           Inl e \<Rightarrow> (st\<lparr>metric_store := fst evaluated\<rparr>, Inl e)
         | Inr classification_loss \<Rightarrow>
             (let stepped = optim (contrastive_loss m cfg batch) (optim_state st) \<theta>;
                  clamped = (snd stepped)
                    \<lparr>temperature := clamp_max (temperature (snd stepped)) (np_log_100 m)\<rparr>
              in (st\<lparr>model_params := clamped, optim_state := fst stepped,
                     metric_store := fst evaluated\<rparr>,
                  Inr (tot\<lparr>label_loss := label_loss tot + contrastive_loss_labels m batch \<theta>,
                           image_loss := image_loss tot + contrastive_loss_images m cfg batch \<theta>,
                           total_classification_loss :=
                             total_classification_loss tot + classification_loss,
                           total_loss := total_loss tot + contrastive_loss m cfg batch \<theta>,
                           total_samples := total_samples tot + 1\<rparr>))))"

fun train_loop ::
  "'w field_model \<Rightarrow> ('w, 'o) optimizer \<Rightarrow> torch_functional \<Rightarrow> 'm metric_class \<Rightarrow> classifier \<Rightarrow>
   train_config \<Rightarrow> metric_calculators \<Rightarrow> point_sample list list \<Rightarrow> ('w, 'o, 'm) train_state \<Rightarrow>
   totals \<Rightarrow> ('w, 'o, 'm) train_state \<times> (error + totals)"
where
  "train_loop m optim F M classifier cfg mc [] st tot = (st, Inr tot)"
| "train_loop m optim F M classifier cfg mc (batch # rest) st tot =
     (case train_batch m optim F M classifier cfg mc batch st tot of
        (st', Inl e) \<Rightarrow> (st', Inl e)
      | (st', Inr tot') \<Rightarrow> train_loop m optim F M classifier cfg mc rest st' tot')"

subsection \<open>The end of the epoch\<close>

text \<open>Python's \<^verbatim>\<open>/\<close> of a number by an integer count.\<close>

definition py_div :: "real \<Rightarrow> nat \<Rightarrow> error + real" where
  "py_div a n = (if n = 0 then Inl ZeroDivisionError else Inr (a / real n))"

text \<open>The dictionary literal \<^verbatim>\<open>to_log\<close>, its entries evaluated in order.\<close>

definition averages :: "totals \<Rightarrow> real \<Rightarrow> error + report" where
  "averages tot temp =
     (case py_div (label_loss tot) (total_samples tot) of
        Inl e \<Rightarrow> Inl e
      | Inr avg_labels \<Rightarrow>
     (case py_div (image_loss tot) (total_samples tot) of
        Inl e \<Rightarrow> Inl e
      | Inr avg_images \<Rightarrow>
     (case py_div (total_classification_loss tot) (total_samples tot) of
        Inl e \<Rightarrow> Inl e
      | Inr avg_semseg \<Rightarrow>
     (case py_div (total_loss tot) (total_samples tot) of
        Inl e \<Rightarrow> Inl e
      | Inr avg_sum \<Rightarrow>
          Inr (Map.empty
            (''train_avg/contrastive_loss_labels'' \<mapsto> avg_labels,
             ''train_avg/contrastive_loss_images'' \<mapsto> avg_images,
             ''train_avg/semseg_loss'' \<mapsto> avg_semseg,
             ''train_avg/loss_sum'' \<mapsto> avg_sum,
             ''train_avg/labelling_temp'' \<mapsto> exp temp))))))"

text \<open>
  The inner loop \<^verbatim>\<open>for metric_name, metric in metric_dict.items()\<close> with its
  \<^verbatim>\<open>try\<close>: a \<^verbatim>\<open>RuntimeError\<close> of the read is replaced by \<open>0.0\<close>, any other exception
  leaves the loop; \<^verbatim>\<open>metric.reset()\<close> follows the \<^verbatim>\<open>try\<close> statement.
\<close>

fun read_metrics ::
  "'m metric_class \<Rightarrow> metric_dict \<Rightarrow> 'm store \<Rightarrow> report \<Rightarrow> 'm store \<times> (error + report)"
where
  "read_metrics M [] store to_log = (store, Inr to_log)"
| "read_metrics M ((metric_name, a) # rest) store to_log =
     (case metric_compute M (store a) of
        Inr v \<Rightarrow>
          read_metrics M rest (store(a := metric_reset M (store a)))
            (to_log(''train_avg/'' @ metric_name \<mapsto> v))
      | Inl e \<Rightarrow>
          if e = RuntimeError then
            read_metrics M rest (store(a := metric_reset M (store a)))
              (to_log(''train_avg/'' @ metric_name \<mapsto> 0))
          else (store, Inl e))"

text \<open>The outer loop \<^verbatim>\<open>for metric_dict in metric_calculators.values()\<close>.\<close>

fun read_all_metrics ::
  "'m metric_class \<Rightarrow> metric_dict list \<Rightarrow> 'm store \<Rightarrow> report \<Rightarrow> 'm store \<times> (error + report)"
where
  "read_all_metrics M [] store to_log = (store, Inr to_log)"
| "read_all_metrics M (metric_dict # rest) store to_log =
     (case read_metrics M metric_dict store to_log of
        (store', Inl e) \<Rightarrow> (store', Inl e)
      | (store', Inr to_log') \<Rightarrow> read_all_metrics M rest store' to_log')"

text \<open>
  From the metric loops to the return: the metrics are read and reset, the report goes
  to \<^verbatim>\<open>wandb.log\<close> (the state keeps the list of emitted reports), and \<^verbatim>\<open>train\<close>
  returns \<^verbatim>\<open>total_loss\<close>.
\<close>

definition report_epoch ::
  "'m metric_class \<Rightarrow> metric_calculators \<Rightarrow> totals \<Rightarrow> report \<Rightarrow> ('w, 'o, 'm) train_state \<Rightarrow>
   ('w, 'o, 'm) train_state \<times> (error + real)"
where
  "report_epoch M metric_calculators tot to_log st =
     (case read_all_metrics M (map snd metric_calculators) (metric_store st) to_log of
        (store', Inl e) \<Rightarrow> (st\<lparr>metric_store := store'\<rparr>, Inl e)
      | (store', Inr to_log') \<Rightarrow>
          (st\<lparr>metric_store := store', wandb_log := wandb_log st @ [to_log']\<rparr>,
           Inr (total_loss tot)))"

subsection \<open>\<^verbatim>\<open>train\<close>\<close>

text \<open>
  One epoch: the loop over the loader from zeroed totals, the averages, the metric
  loops and the report. An exception ends the call with the state reached so far.
  (\<^verbatim>\<open>labelling_model.train()\<close> only switches the model's mode and the progress bar
  only prints.)
\<close>

definition train ::
  "'w field_model \<Rightarrow> ('w, 'o) optimizer \<Rightarrow> torch_functional \<Rightarrow> 'm metric_class \<Rightarrow> classifier \<Rightarrow>
   train_config \<Rightarrow> metric_calculators \<Rightarrow> point_sample list list \<Rightarrow> ('w, 'o, 'm) train_state \<Rightarrow>
   ('w, 'o, 'm) train_state \<times> (error + real)"
where
  "train m optim F M classifier cfg metric_calculators clip_train_loader st =
     (case train_loop m optim F M classifier cfg metric_calculators clip_train_loader st
             initial_totals of
        (st', Inl e) \<Rightarrow> (st', Inl e)
      | (st', Inr tot) \<Rightarrow>
          (case averages tot (temperature (model_params st')) of
             Inl e \<Rightarrow> (st', Inl e)
           | Inr to_log \<Rightarrow> report_epoch M metric_calculators tot to_log st'))"

subsection \<open>Notions used in the statements\<close>

text \<open>
  The metrics registered under the key \<^verbatim>\<open>"semantic"\<close> (none when the key is missing),
  and the validity of a label identifier.
\<close>

definition semantic_metrics :: "metric_calculators \<Rightarrow> metric_dict" where
  "semantic_metrics metric_calculators =
     (case map_of metric_calculators ''semantic'' of None \<Rightarrow> [] | Some d \<Rightarrow> d)"

definition valid_label :: "classifier \<Rightarrow> int \<Rightarrow> bool" where
  "valid_label classifier l \<longleftrightarrow> l \<noteq> - 1 \<and> l < total_label_classes classifier"

subsection \<open>Example data\<close>

definition sample_a :: point_sample where
  "sample_a = \<lparr>xyz = [0, 0, 0], clip_vector = [1, 0], clip_image_vector = [0, 1],
     distance = 1, semantic_weight = 1, img_idx = 7, label = 0\<rparr>"

definition sample_b :: point_sample where
  "sample_b = \<lparr>xyz = [1, 0, 0], clip_vector = [0, 1], clip_image_vector = [1, 0],
     distance = 2, semantic_weight = 1, img_idx = 7, label = - 1\<rparr>"

definition sample_c :: point_sample where
  "sample_c = \<lparr>xyz = [0, 1, 0], clip_vector = [1, 1], clip_image_vector = [1, 2],
     distance = 3, semantic_weight = 1, img_idx = 9, label = - 1\<rparr>"

definition sample_d :: point_sample where
  "sample_d = \<lparr>xyz = [0, 0, 1], clip_vector = [0, 0], clip_image_vector = [0, 0],
     distance = 4, semantic_weight = 1, img_idx = 9, label = 7\<rparr>"

definition example_batch :: "point_sample list" where
  "example_batch = [sample_a, sample_b, sample_c]"

definition unlabeled_batch :: "point_sample list" where
  "unlabeled_batch = [sample_b, sample_d]"

text \<open>
  A classifier over three classes; a cross entropy that is the mean negative
  log-probability of the target class and raises on a target outside the class range;
  a metric that counts the samples it has seen and cannot be read before its first
  update (two are registered under \<^verbatim>\<open>"semantic"\<close>, two under \<^verbatim>\<open>"visual"\<close>); a model
  with a single-precision temperature whose visual embedding is twice its semantic one
  and whose loss tells its five arguments apart; an optimizer that pushes the
  temperature up by 100 in every step and keeps, as its state, the value of the loss it
  was given; loss ratios 2 and 3.
\<close>

definition example_classifier :: classifier where
  "example_classifier =
     \<lparr>calculate_classifications = (\<lambda>text_features image_features.
         map (\<lambda>_. [1 / 2, 1 / 4, 1 / 4]) text_features),
      total_label_classes = 3\<rparr>"

definition example_functional :: torch_functional where
  "example_functional =
     \<lparr>F_cross_entropy = (\<lambda>input target.
         if list_ex (\<lambda>(x, t). t < 0 \<or> int (length x) \<le> t) (zip input target)
         then Inl IndexError
         else Inr (sum_list (map (\<lambda>(x, t). - (x ! nat t)) (zip input target))
                   / real (length target))),
      torch_log = ln\<rparr>"

definition example_metric :: "nat metric_class" where
  "example_metric =
     \<lparr>metric_forward = (\<lambda>seen probs labels. (seen + length labels, None)),
      metric_compute = (\<lambda>seen. if seen = 0 then Inl RuntimeError else Inr (real seen)),
      metric_reset = (\<lambda>seen. 0)\<rparr>"

definition example_calculators :: metric_calculators where
  "example_calculators =
     [(''semantic'', [(''semantic_accuracy_micro'', 0), (''semantic_accuracy_macro'', 1)]),
      (''visual'', [(''visual_accuracy'', 2), (''visual_recall'', 3)])]"

definition example_model :: "unit field_model" where
  "example_model =
     \<lparr>forward = (\<lambda>\<theta> xyzs. (xyzs, map (map (\<lambda>x. 2 * x)) xyzs)),
      compute_loss = (\<lambda>\<theta> predicted target label_mask ws.
         temperature \<theta> + label_mask ! 0 ! 1 + 10 * sum_list (map sum_list target)
         + 100 * sum_list (map sum_list predicted) + 1000 * hd ws),
      np_log_100 = float32_log_100\<rparr>"

definition example_config :: train_config where
  "example_config = \<lparr>exp_decay_coeff = 1 / 2, image_to_label_loss_ratio = 2,
     label_to_image_loss_ratio = 3\<rparr>"

definition example_optim :: "(unit, real) optimizer" where
  "example_optim loss seen \<theta> = (loss \<theta>, \<theta>\<lparr>temperature := temperature \<theta> + 100\<rparr>)"

definition example_state :: "(unit, real, nat) train_state" where
  "example_state =
     \<lparr>model_params = \<lparr>weights = (), temperature = 0\<rparr>, optim_state = 0,
      metric_store = (\<lambda>a. if a = 2 then 5 else 0), wandb_log = []\<rparr>"

lemmas example_defs =
  example_batch_def unlabeled_batch_def sample_a_def sample_b_def sample_c_def sample_d_def

section \<open>Properties of the pairwise masks\<close>

lemma tensor_add_nth:
  assumes "i < length a" "i < length b" "j < length (a ! i)" "j < length (b ! i)"
  shows "tensor_add a b ! i ! j = a ! i ! j + b ! i ! j"
  using assms by (simp add: tensor_add_def)

lemma eye_nth: "i < n \<Longrightarrow> j < n \<Longrightarrow> eye n ! i ! j = (if i = j then 1 else 0)"
  by (simp add: eye_def)

lemma to_float_ne_nth:
  "i < length index \<Longrightarrow> j < length index \<Longrightarrow>
   to_float (ne_transpose index) ! i ! j = (if index ! i \<noteq> index ! j then 1 else 0)"
  by (simp add: to_float_def ne_transpose_def)

lemma mask_nth:
  assumes "i < length index" "j < length index"
  shows "tensor_add (to_float (ne_transpose index)) (eye (length index)) ! i ! j =
         (if index ! i \<noteq> index ! j then 1 else 0) + (if i = j then 1 else 0)"
proof -
  have "tensor_add (to_float (ne_transpose index)) (eye (length index)) ! i ! j =
        to_float (ne_transpose index) ! i ! j + eye (length index) ! i ! j"
    using assms by (intro tensor_add_nth) (simp_all add: to_float_def ne_transpose_def eye_def)
  then show ?thesis
    using assms by (simp only: to_float_ne_nth eye_nth)
qed

lemma mask_shape:
  "length (tensor_add (to_float (ne_transpose index)) (eye (length index))) = length index"
  "i < length index \<Longrightarrow>
   length (tensor_add (to_float (ne_transpose index)) (eye (length index)) ! i) = length index"
  by (simp_all add: tensor_add_def to_float_def ne_transpose_def eye_def)

lemma image_label_mask_nth:
  assumes "i < length batch" "j < length batch"
  shows "image_label_mask batch ! i ! j =
         (if img_idx (batch ! i) \<noteq> img_idx (batch ! j) then 1 else 0) + (if i = j then 1 else 0)"
  using assms mask_nth [of i "batch_image_label_index batch" j]
  by (simp add: image_label_mask_def batch_size_def batch_image_label_index_def)

lemma language_label_mask_nth:
  assumes "i < length batch" "j < length batch"
  shows "language_label_mask batch ! i ! j =
         (if label (batch ! i) \<noteq> label (batch ! j) then 1 else 0) + (if i = j then 1 else 0)"
  using assms mask_nth [of i "batch_language_label_index batch" j]
  by (simp add: language_label_mask_def batch_size_def batch_image_label_index_def
      batch_language_label_index_def)

text \<open>
  Claim C1. For a batch of \<open>N\<close> samples, both masks built by \<^verbatim>\<open>train\<close> are \<open>N \<times> N\<close>,
  and entry \<open>(i, j)\<close> is 1 when the two samples' identifiers differ and 0 when they are
  equal, plus the entry of the identity matrix. Hence both masks are symmetric and every
  diagonal entry is exactly 1, whatever the identifiers are (valid or the sentinel).
\<close>

theorem pairwise_masks:
  assumes "i < length batch" and "j < length batch"
  shows "length (image_label_mask batch) = length batch
       \<and> length (image_label_mask batch ! i) = length batch
       \<and> length (language_label_mask batch) = length batch
       \<and> length (language_label_mask batch ! i) = length batch
       \<and> image_label_mask batch ! i ! j =
           (if img_idx (batch ! i) \<noteq> img_idx (batch ! j) then 1 else 0)
           + (if i = j then 1 else 0)
       \<and> language_label_mask batch ! i ! j =
           (if label (batch ! i) \<noteq> label (batch ! j) then 1 else 0)
           + (if i = j then 1 else 0)
       \<and> image_label_mask batch ! i ! j = image_label_mask batch ! j ! i
       \<and> language_label_mask batch ! i ! j = language_label_mask batch ! j ! i
       \<and> image_label_mask batch ! i ! i = 1
       \<and> language_label_mask batch ! i ! i = 1"
proof -
  have shape: "length (image_label_mask batch) = length batch"
    "length (image_label_mask batch ! i) = length batch"
    "length (language_label_mask batch) = length batch"
    "length (language_label_mask batch ! i) = length batch"
    using assms(1) mask_shape [where index = "batch_image_label_index batch"]
      mask_shape [where index = "batch_language_label_index batch"]
    by (simp_all add: image_label_mask_def language_label_mask_def batch_size_def
        batch_image_label_index_def batch_language_label_index_def)
  have sym: "image_label_mask batch ! i ! j = image_label_mask batch ! j ! i"
    "language_label_mask batch ! i ! j = language_label_mask batch ! j ! i"
    using assms by (auto simp: image_label_mask_nth language_label_mask_nth)
  have diag: "image_label_mask batch ! i ! i = 1" "language_label_mask batch ! i ! i = 1"
    using assms(1) by (simp_all add: image_label_mask_nth language_label_mask_nth)
  show ?thesis
    using shape sym diag image_label_mask_nth [OF assms] language_label_mask_nth [OF assms]
    by simp
qed

lemma example_masks:
  "image_label_mask example_batch = [[1, 0, 1], [0, 1, 1], [1, 1, 1]]"
  "language_label_mask example_batch = [[1, 1, 1], [1, 1, 0], [1, 0, 1]]"
  by (simp_all add: image_label_mask_def language_label_mask_def batch_size_def
      batch_image_label_index_def batch_language_label_index_def tensor_add_def to_float_def
      ne_transpose_def eye_def example_defs upt_rec)

theorem pairwise_masks_witness:
  "image_label_mask example_batch = [[1, 0, 1], [0, 1, 1], [1, 1, 1]]
   \<and> language_label_mask example_batch = [[1, 1, 1], [1, 1, 0], [1, 0, 1]]
   \<and> image_label_mask example_batch ! 0 ! 1 = image_label_mask example_batch ! 1 ! 0
   \<and> language_label_mask example_batch ! 1 ! 1 = 1"
proof -
  have i: "(1::nat) < length example_batch" and j: "(2::nat) < length example_batch"
    by (simp_all add: example_defs)
  show ?thesis
    using pairwise_masks [OF i j] example_masks by simp
qed

text \<open>
  Claim C6. Two distinct samples that both carry the sentinel \<open>-1\<close> in a label space
  get mask entry 0 in that branch, as any other pair of equal identifiers does.
\<close>

theorem sentinel_pair_masked:
  assumes "i < length batch" and "j < length batch" and "i \<noteq> j"
  shows "(label (batch ! i) = - 1 \<and> label (batch ! j) = - 1
            \<longrightarrow> language_label_mask batch ! i ! j = 0)
       \<and> (img_idx (batch ! i) = - 1 \<and> img_idx (batch ! j) = - 1
            \<longrightarrow> image_label_mask batch ! i ! j = 0)
       \<and> (label (batch ! i) = label (batch ! j) \<longrightarrow> language_label_mask batch ! i ! j = 0)
       \<and> (img_idx (batch ! i) = img_idx (batch ! j) \<longrightarrow> image_label_mask batch ! i ! j = 0)"
  using assms by (simp add: image_label_mask_nth language_label_mask_nth)

theorem sentinel_pair_masked_witness:
  "label (example_batch ! 1) = - 1 \<and> label (example_batch ! 2) = - 1
   \<and> language_label_mask example_batch ! 1 ! 2 = 0"
proof -
  have i: "(1::nat) < length example_batch" and j: "(2::nat) < length example_batch"
    and ne: "(1::nat) \<noteq> 2"
    by (simp_all add: example_defs)
  have l: "label (example_batch ! 1) = - 1" "label (example_batch ! 2) = - 1"
    by (simp_all add: example_defs)
  show ?thesis
    using sentinel_pair_masked [OF i j ne] l by simp
qed

section \<open>Properties of \<^verbatim>\<open>zero_shot_eval\<close>\<close>

lemma update_metrics_frame:
  "a \<notin> snd ` set d \<Longrightarrow> fst (update_metrics M d probs labels store) a = store a"
  by (induction d arbitrary: store) (auto split: prod.splits option.splits)

lemma semseg_mask_valid:
  "semseg_mask classifier language_label_index = map (valid_label classifier) language_label_index"
  by (simp add: semseg_mask_def logical_and_def ne_scalar_def lt_scalar_def map2_map_map
      valid_label_def)

lemma torch_any_semseg_mask:
  "torch_any (semseg_mask classifier language_label_index)
   \<longleftrightarrow> (\<exists>l \<in> set language_label_index. valid_label classifier l)"
  by (simp add: semseg_mask_valid torch_any_def list_ex_iff)

lemma mask_index_rows:
  assumes "length xs = length ls"
  shows "mask_index xs (map P ls) = Inr (map fst (filter (\<lambda>(x, l). P l) (zip xs ls)))"
proof -
  have "map fst (filter snd (zip xs (map P ls))) = map fst (filter (\<lambda>(x, l). P l) (zip xs ls))"
    using assms by (induction xs ls rule: list_induct2) simp_all
  then show ?thesis
    using assms by (simp add: mask_index_def)
qed

lemma mask_index_self:
  "mask_index ls (map P ls) = Inr (filter P ls)"
proof -
  have "map fst (filter snd (zip ls (map P ls))) = filter P ls"
    by (induction ls) simp_all
  then show ?thesis
    by (simp add: mask_index_def)
qed

lemma snd_filter_zip:
  assumes "length xs = length ls"
  shows "map snd (filter (\<lambda>(x, l). P l) (zip xs ls)) = filter P ls"
  using assms by (induction xs ls rule: list_induct2) simp_all

lemma zse_valid:
  assumes "\<exists>l \<in> set language_label_index. l \<noteq> - 1 \<and> l < total_label_classes classifier"
    and "length (calculate_classifications classifier tf imf) = length language_label_index"
  shows "semseg_mask classifier language_label_index =
           map (\<lambda>l. l \<noteq> - 1 \<and> l < total_label_classes classifier) language_label_index
       \<and> snd (zero_shot_eval F M classifier tf imf language_label_index mc store) =
          (let valid = filter (\<lambda>(p, l). l \<noteq> - 1 \<and> l < total_label_classes classifier)
                         (zip (calculate_classifications classifier tf imf) language_label_index);
               masked_class_prob = map fst valid;
               masked_labels = map snd valid
           in case F_cross_entropy F (map (map (torch_log F)) masked_class_prob) masked_labels of
                Inl e \<Rightarrow> Inl e
              | Inr loss \<Rightarrow>
                  (case snd (update_metrics M (semantic_metrics mc) masked_class_prob
                               masked_labels store) of
                     Some e \<Rightarrow> Inl e
                   | None \<Rightarrow> Inr loss))"
proof -
  let ?P = "\<lambda>l. l \<noteq> - 1 \<and> l < total_label_classes classifier"
  have v: "valid_label classifier = ?P"
    by (rule ext) (simp add: valid_label_def)
  have any: "torch_any (semseg_mask classifier language_label_index)"
    using assms(1) by (simp add: torch_any_semseg_mask valid_label_def)
  have rows: "mask_index (calculate_classifications classifier tf imf)
                (semseg_mask classifier language_label_index) =
              Inr (map fst (filter (\<lambda>(p, l). ?P l)
                (zip (calculate_classifications classifier tf imf) language_label_index)))"
    using mask_index_rows [OF assms(2), of ?P] by (simp add: semseg_mask_valid v)
  have labels: "mask_index language_label_index (semseg_mask classifier language_label_index) =
              Inr (map snd (filter (\<lambda>(p, l). ?P l)
                (zip (calculate_classifications classifier tf imf) language_label_index)))"
    using snd_filter_zip [OF assms(2), of ?P] by (simp add: semseg_mask_valid v mask_index_self)
  have "snd (zero_shot_eval F M classifier tf imf language_label_index mc store) =
          (let valid = filter (\<lambda>(p, l). ?P l)
                         (zip (calculate_classifications classifier tf imf) language_label_index);
               masked_class_prob = map fst valid;
               masked_labels = map snd valid
           in case F_cross_entropy F (map (map (torch_log F)) masked_class_prob) masked_labels of
                Inl e \<Rightarrow> Inl e
              | Inr loss \<Rightarrow>
                  (case snd (update_metrics M (semantic_metrics mc) masked_class_prob
                               masked_labels store) of
                     Some e \<Rightarrow> Inl e
                   | None \<Rightarrow> Inr loss))"
    unfolding zero_shot_eval_def Let_def
    by (simp add: any rows labels semantic_metrics_def
        split: sum.splits option.splits prod.splits)
  then show ?thesis
    by (simp add: semseg_mask_valid v)
qed

lemma zse_store_cases:
  "fst (zero_shot_eval F M classifier tf imf language_label_index mc store) = store
   \<or> (\<exists>probs labels. fst (zero_shot_eval F M classifier tf imf language_label_index mc store) =
         fst (update_metrics M (semantic_metrics mc) probs labels store))"
  unfolding zero_shot_eval_def Let_def semantic_metrics_def
  apply (auto split: sum.splits option.splits prod.splits)
  apply (metis fst_conv)+
  done

lemma zse_frame:
  assumes "a \<notin> snd ` set (semantic_metrics mc)"
  shows "fst (zero_shot_eval F M classifier tf imf language_label_index mc store) a = store a"
  using zse_store_cases [of F M classifier tf imf language_label_index mc store]
    update_metrics_frame [OF assms]
  by metis

section \<open>Properties of the training loop\<close>

lemma train_batch_success:
  assumes "snd (train_batch m optim F M classifier cfg mc batch st tot) = Inr tot'"
  shows "model_params (fst (train_batch m optim F M classifier cfg mc batch st tot)) =
           (snd (optim (contrastive_loss m cfg batch) (optim_state st) (model_params st)))
             \<lparr>temperature := clamp_max (temperature (snd (optim (contrastive_loss m cfg batch)
                (optim_state st) (model_params st)))) (np_log_100 m)\<rparr>"
    and "optim_state (fst (train_batch m optim F M classifier cfg mc batch st tot)) =
           fst (optim (contrastive_loss m cfg batch) (optim_state st) (model_params st))"
    and "total_loss tot' = total_loss tot + contrastive_loss m cfg batch (model_params st)"
    and "total_samples tot' = total_samples tot + 1"
  using assms unfolding train_batch_def Let_def
  by (auto split: sum.splits)

lemma train_batch_totals:
  assumes "snd (train_batch m optim F M classifier cfg mc batch st tot) = Inr tot'"
  shows "image_loss tot' = image_loss tot + contrastive_loss_images m cfg batch (model_params st)"
    and "label_loss tot' = label_loss tot + contrastive_loss_labels m batch (model_params st)"
    and "total_loss tot' = total_loss tot + contrastive_loss m cfg batch (model_params st)"
    and "total_samples tot' = total_samples tot + 1"
  using assms unfolding train_batch_def Let_def
  by (auto split: sum.splits)







lemma train_loop_total_samples:
  assumes "snd (train_loop m optim F M classifier cfg mc batches st tot) = Inr tot'"
  shows "total_samples tot' = total_samples tot + length batches"
  using assms
proof (induction batches arbitrary: st tot)
  case Nil
  then show ?case by simp
next
  case (Cons batch rest)
  obtain st' r where step: "train_batch m optim F M classifier cfg mc batch st tot = (st', r)"
    by (cases "train_batch m optim F M classifier cfg mc batch st tot")
  show ?case
  proof (cases r)
    case (Inl e)
    then show ?thesis using Cons.prems by (simp add: step)
  next
    case (Inr tot1)
    have "total_samples tot1 = total_samples tot + 1"
      using train_batch_success(4) [of m optim F M classifier cfg mc batch st tot tot1]
      by (simp add: step Inr)
    moreover have "total_samples tot' = total_samples tot1 + length rest"
      using Cons.IH [of st' tot1] Cons.prems by (simp add: step Inr)
    ultimately show ?thesis by simp
  qed
qed


lemma train_empty_loader:
  "train m optim F M classifier cfg mc [] st = (st, Inl ZeroDivisionError)"
  by (simp add: train_def initial_totals_def averages_def py_div_def)

section \<open>Properties of the end of the epoch\<close>











lemma averages_entries:
  assumes "averages tot temp = Inr to_log"
  shows "total_samples tot \<noteq> 0"
    and "to_log ''train_avg/contrastive_loss_labels'' = Some (label_loss tot / real (total_samples tot))"
    and "to_log ''train_avg/contrastive_loss_images'' = Some (image_loss tot / real (total_samples tot))"
    and "to_log ''train_avg/semseg_loss'' = Some (total_classification_loss tot / real (total_samples tot))"
    and "to_log ''train_avg/loss_sum'' = Some (total_loss tot / real (total_samples tot))"
    and "to_log ''train_avg/labelling_temp'' = Some (exp temp)"
  using assms by (auto simp: averages_def py_div_def split: if_splits)

lemma averages_undefined:
  "total_samples tot = 0 \<Longrightarrow> averages tot temp = Inl ZeroDivisionError"
  by (simp add: averages_def py_div_def)

section \<open>An example run\<close>

text \<open>The example batch goes through \<^verbatim>\<open>zero_shot_eval\<close> and through the loop body.\<close>

lemmas example_eval_defs =
  zero_shot_eval_def Let_def semseg_mask_valid torch_any_def
  valid_label_def mask_index_def example_classifier_def example_functional_def
  example_metric_def example_calculators_def example_state_def example_defs
  batch_language_label_index_def example_model_def

lemma example_zero_shot_eval:
  "zero_shot_eval example_functional example_metric example_classifier
     (map xyz example_batch) imf (batch_language_label_index example_batch)
     example_calculators (metric_store example_state) =
   ((metric_store example_state)(0 := 1, 1 := 1), Inr (- ln (1 / 2)))"
  by (simp add: example_eval_defs)

lemma example_forward:
  "forward example_model \<theta> xyzs = (xyzs, map (map (\<lambda>x. 2 * x)) xyzs)"
  by (simp add: example_model_def)

lemma train_batch_isl:
  "isl (snd (train_batch m optim F M classifier cfg mc batch st tot)) =
   isl (snd (zero_shot_eval F M classifier (fst (forward m (model_params st) (map xyz batch)))
     (snd (forward m (model_params st) (map xyz batch))) (batch_language_label_index batch) mc
     (metric_store st)))"
  unfolding train_batch_def Let_def
  by (auto split: sum.splits)

lemma example_train_batch:
  "\<not> isl (snd (train_batch example_model example_optim example_functional example_metric
     example_classifier cfg example_calculators example_batch example_state tot))"
  by (simp add: train_batch_isl example_forward example_zero_shot_eval)

lemma example_train_loop:
  "\<not> isl (snd (train_loop example_model example_optim example_functional example_metric
     example_classifier cfg example_calculators [example_batch] example_state tot))"
  using example_train_batch [of cfg tot]
  by (auto split: prod.splits sum.splits)

section \<open>The evaluation\<close>

text \<open>
  Claim C2. When no sample of the batch has a valid label (every identifier is the
  sentinel \<open>-1\<close> or at least the number of label classes), \<^verbatim>\<open>zero_shot_eval\<close> reaches
  \<^verbatim>\<open>torch.zeros_like(semseg_mask).mean(dim=-1)\<close>. The mask is a boolean tensor, so is
  its \<^verbatim>\<open>zeros_like\<close>, and the mean of a boolean tensor raises \<^verbatim>\<open>RuntimeError\<close>: no
  loss is returned, the metric store is unchanged, and the exception leaves \<^verbatim>\<open>train\<close>'s
  loop body before the optimizer step with the training state unchanged.
\<close>

theorem zero_shot_eval_without_valid_label:
  assumes "\<forall>l \<in> set (batch_language_label_index batch).
             l = - 1 \<or> total_label_classes classifier \<le> l"
  shows "zero_shot_eval F M classifier tf imf (batch_language_label_index batch) mc store =
           (store, Inl RuntimeError)
       \<and> train_batch m optim F M classifier cfg mc batch st tot = (st, Inl RuntimeError)"
proof -
  have none: "\<not> torch_any (semseg_mask classifier (batch_language_label_index batch))"
    using assms by (auto simp: torch_any_semseg_mask valid_label_def)
  then have z: "zero_shot_eval F M classifier tf imf (batch_language_label_index batch) mc store =
      (store, Inl RuntimeError)" for tf imf store
    by (simp add: zero_shot_eval_def Let_def)
  then show ?thesis
    by (simp add: train_batch_def Let_def)
qed

theorem zero_shot_eval_without_valid_label_witness:
  "batch_language_label_index unlabeled_batch = [- 1, 7]
   \<and> zero_shot_eval example_functional example_metric example_classifier
       (map xyz unlabeled_batch) (map xyz unlabeled_batch)
       (batch_language_label_index unlabeled_batch) example_calculators
       (metric_store example_state) = (metric_store example_state, Inl RuntimeError)
   \<and> train_batch example_model example_optim example_functional example_metric
       example_classifier default_config example_calculators unlabeled_batch example_state
       initial_totals = (example_state, Inl RuntimeError)"
proof -
  have l: "batch_language_label_index unlabeled_batch = [- 1, 7]"
    by (simp add: batch_language_label_index_def example_defs)
  have h: "\<forall>l \<in> set (batch_language_label_index unlabeled_batch).
             l = - 1 \<or> total_label_classes example_classifier \<le> l"
    by (simp add: l example_classifier_def)
  show ?thesis
    using zero_shot_eval_without_valid_label [OF h] l by simp
qed

lemma train_batch_store:
  "metric_store (fst (train_batch m optim F M classifier cfg mc batch st tot)) =
   fst (zero_shot_eval F M classifier (fst (forward m (model_params st) (map xyz batch)))
     (snd (forward m (model_params st) (map xyz batch))) (batch_language_label_index batch) mc
     (metric_store st))"
  unfolding train_batch_def Let_def
  by (simp split: sum.splits)

text \<open>
  Claim C8. \<^verbatim>\<open>zero_shot_eval\<close> changes no accumulator other than those registered under
  the key \<^verbatim>\<open>"semantic"\<close>: every other accumulator, in particular one registered only
  under another key, has the same state after the call, for every batch and also when
  the call raises. The same holds for the whole body of \<^verbatim>\<open>train\<close>'s loop, and nothing
  changes when the key is missing.
\<close>

theorem zero_shot_eval_updates_semantic_only:
  "(a \<notin> snd ` set (semantic_metrics mc) \<longrightarrow>
      fst (zero_shot_eval F M classifier tf imf language_label_index mc store) a = store a
      \<and> metric_store (fst (train_batch m optim F M classifier cfg mc batch st tot)) a =
          metric_store st a)
   \<and> (map_of mc ''semantic'' = None \<longrightarrow>
      fst (zero_shot_eval F M classifier tf imf language_label_index mc store) = store)"
proof -
  have "fst (zero_shot_eval F M classifier tf imf language_label_index mc store) = store"
    if "map_of mc ''semantic'' = None"
  proof
    fix b
    have "b \<notin> snd ` set (semantic_metrics mc)"
      using that by (simp add: semantic_metrics_def)
    then show "fst (zero_shot_eval F M classifier tf imf language_label_index mc store) b =
        store b"
      by (rule zse_frame)
  qed
  moreover have "fst (zero_shot_eval F M classifier tf imf language_label_index mc store) a =
        store a
      \<and> metric_store (fst (train_batch m optim F M classifier cfg mc batch st tot)) a =
          metric_store st a"
    if "a \<notin> snd ` set (semantic_metrics mc)"
  proof -
    have "fst (zero_shot_eval F M classifier tf imf language_label_index mc store) a = store a"
      using that by (rule zse_frame)
    moreover have "fst (zero_shot_eval F M classifier
        (fst (forward m (model_params st) (map xyz batch)))
        (snd (forward m (model_params st) (map xyz batch)))
        (batch_language_label_index batch) mc (metric_store st)) a = metric_store st a"
      using that by (rule zse_frame)
    ultimately show ?thesis
      by (simp only: train_batch_store)
  qed
  ultimately show ?thesis
    by blast
qed

theorem zero_shot_eval_updates_semantic_only_witness:
  "2 \<notin> snd ` set (semantic_metrics example_calculators)
   \<and> fst (zero_shot_eval example_functional example_metric example_classifier
       (map xyz example_batch) (map xyz example_batch) (batch_language_label_index example_batch)
       example_calculators (metric_store example_state)) 2 = 5
   \<and> fst (zero_shot_eval example_functional example_metric example_classifier
       (map xyz example_batch) (map xyz example_batch) (batch_language_label_index example_batch)
       example_calculators (metric_store example_state)) 0 = 1"
proof -
  have h: "2 \<notin> snd ` set (semantic_metrics example_calculators)"
    by (simp add: semantic_metrics_def example_calculators_def)
  have s: "metric_store example_state 2 = 5"
    by (simp add: example_state_def)
  show ?thesis
    using zero_shot_eval_updates_semantic_only [where a = 2 and mc = example_calculators
        and F = example_functional and M = example_metric and classifier = example_classifier
        and tf = "map xyz example_batch" and imf = "map xyz example_batch"
        and language_label_index = "batch_language_label_index example_batch"
        and store = "metric_store example_state"] h s
    by (simp add: example_zero_shot_eval)
qed

text \<open>
  Claim C4. For a batch with at least one valid sample (the classifier giving one row
  of probabilities per sample), the mask of \<^verbatim>\<open>zero_shot_eval\<close> selects a sample exactly
  when its label is not \<open>-1\<close> and is below the number of label classes, and the call
  returns the cross entropy of the logarithms of the selected rows of probabilities
  against the selected labels (integers already, so \<^verbatim>\<open>.long()\<close> changes nothing), unless
  the cross entropy or the update of a metric raises.
\<close>

theorem zero_shot_eval_valid_subset:
  assumes "\<exists>l \<in> set language_label_index. l \<noteq> - 1 \<and> l < total_label_classes classifier"
    and "length (calculate_classifications classifier tf imf) = length language_label_index"
  shows "semseg_mask classifier language_label_index =
           map (\<lambda>l. l \<noteq> - 1 \<and> l < total_label_classes classifier) language_label_index
       \<and> snd (zero_shot_eval F M classifier tf imf language_label_index mc store) =
          (let valid = filter (\<lambda>(p, l). l \<noteq> - 1 \<and> l < total_label_classes classifier)
                         (zip (calculate_classifications classifier tf imf) language_label_index);
               masked_class_prob = map fst valid;
               masked_labels = map snd valid
           in case F_cross_entropy F (map (map (torch_log F)) masked_class_prob) masked_labels of
                Inl e \<Rightarrow> Inl e
              | Inr loss \<Rightarrow>
                  (case snd (update_metrics M (semantic_metrics mc) masked_class_prob
                               masked_labels store) of
                     Some e \<Rightarrow> Inl e
                   | None \<Rightarrow> Inr loss))"
  using assms by (rule zse_valid)

theorem zero_shot_eval_valid_subset_witness:
  "snd (zero_shot_eval example_functional example_metric example_classifier
       (map xyz example_batch) (map xyz example_batch) (batch_language_label_index example_batch)
       example_calculators (metric_store example_state)) =
   F_cross_entropy example_functional [[ln (1 / 2), ln (1 / 4), ln (1 / 4)]] [0]
   \<and> semseg_mask example_classifier (batch_language_label_index example_batch)
       = [True, False, False]"
proof -
  have l: "batch_language_label_index example_batch = [0, - 1, - 1]"
    by (simp add: batch_language_label_index_def example_defs)
  have h1: "\<exists>l \<in> set (batch_language_label_index example_batch).
              l \<noteq> - 1 \<and> l < total_label_classes example_classifier"
    by (simp add: l example_classifier_def)
  have h2: "length (calculate_classifications example_classifier (map xyz example_batch)
              (map xyz example_batch)) = length (batch_language_label_index example_batch)"
    by (simp add: batch_language_label_index_def example_classifier_def)
  have u: "snd (update_metrics example_metric (semantic_metrics example_calculators) p ls
             (metric_store example_state)) = None" for p ls
    by (simp add: semantic_metrics_def example_calculators_def example_metric_def)
  show ?thesis
    using zero_shot_eval_valid_subset [OF h1 h2, of example_functional example_metric
        example_calculators "metric_store example_state"]
    unfolding l
    by (simp add: u Let_def example_classifier_def example_functional_def example_defs)
qed

section \<open>The optimized loss and the temperature\<close>

lemma float32_log_100_le: "float32_log_100 \<le> 100"
  by (simp add: float32_log_100_def)

text \<open>
  Claim C3. When the body of the loop completes for a batch, the loss that is
  differentiated and handed to the optimizer is \<open>image_to_label_loss_ratio\<close> times the
  model's contrastive loss of the predicted visual embeddings against the batch's image
  vectors, under the image mask and the weights \<open>exp (- exp_decay_coeff * distance)\<close>, plus
  \<open>label_to_image_loss_ratio\<close> times its contrastive loss of the predicted semantic
  embeddings against the batch's text vectors, under the label mask and the semantic
  weights. The totals \<^verbatim>\<open>image_loss\<close>, \<^verbatim>\<open>label_loss\<close> and \<^verbatim>\<open>total_loss\<close> grow by the
  values of the two losses and of their weighted sum at the parameters of the forward
  pass. The classification loss is no summand: with any other cross entropy, metric
  class, classifier, metric dictionary, metric store and running totals for which the
  body also completes, the new parameters and the new optimizer state are the same. Both
  ratios default to \<open>1.0\<close>.
\<close>

theorem train_optimizes_weighted_sum:
  assumes "snd (train_batch m optim F M classifier cfg mc batch st tot) = Inr tot'"
  shows "(optim_state (fst (train_batch m optim F M classifier cfg mc batch st tot)),
          model_params (fst (train_batch m optim F M classifier cfg mc batch st tot))) =
           (let stepped = optim
                  (\<lambda>\<theta>. image_to_label_loss_ratio cfg *
                         compute_loss m \<theta> (snd (forward m \<theta> (map xyz batch)))
                           (map clip_image_vector batch) (image_label_mask batch)
                           (map (\<lambda>d. exp (- exp_decay_coeff cfg * d)) (map distance batch))
                     + label_to_image_loss_ratio cfg *
                         compute_loss m \<theta> (fst (forward m \<theta> (map xyz batch)))
                           (map clip_vector batch) (language_label_mask batch)
                           (map semantic_weight batch))
                  (optim_state st) (model_params st)
            in (fst stepped,
                (snd stepped)\<lparr>temperature := min (temperature (snd stepped)) (np_log_100 m)\<rparr>))
       \<and> image_loss tot' = image_loss tot
           + compute_loss m (model_params st) (snd (forward m (model_params st) (map xyz batch)))
               (map clip_image_vector batch) (image_label_mask batch)
               (map (\<lambda>d. exp (- exp_decay_coeff cfg * d)) (map distance batch))
       \<and> label_loss tot' = label_loss tot
           + compute_loss m (model_params st) (fst (forward m (model_params st) (map xyz batch)))
               (map clip_vector batch) (language_label_mask batch) (map semantic_weight batch)
       \<and> total_loss tot' = total_loss tot
           + (image_to_label_loss_ratio cfg * (image_loss tot' - image_loss tot)
              + label_to_image_loss_ratio cfg * (label_loss tot' - label_loss tot))
       \<and> (\<forall>F' M' classifier' mc' store' tot2.
            \<not> isl (snd (train_batch m optim F' M' classifier' cfg mc' batch
                          (st\<lparr>metric_store := store'\<rparr>) tot2)) \<longrightarrow>
            model_params (fst (train_batch m optim F' M' classifier' cfg mc' batch
                          (st\<lparr>metric_store := store'\<rparr>) tot2)) =
              model_params (fst (train_batch m optim F M classifier cfg mc batch st tot))
            \<and> optim_state (fst (train_batch m optim F' M' classifier' cfg mc' batch
                          (st\<lparr>metric_store := store'\<rparr>) tot2)) =
              optim_state (fst (train_batch m optim F M classifier cfg mc batch st tot)))
       \<and> image_to_label_loss_ratio default_config = 1
       \<and> label_to_image_loss_ratio default_config = 1"
proof -
  have loss: "contrastive_loss m cfg batch =
      (\<lambda>\<theta>. image_to_label_loss_ratio cfg *
                         compute_loss m \<theta> (snd (forward m \<theta> (map xyz batch)))
                           (map clip_image_vector batch) (image_label_mask batch)
                           (map (\<lambda>d. exp (- exp_decay_coeff cfg * d)) (map distance batch))
                     + label_to_image_loss_ratio cfg *
                         compute_loss m \<theta> (fst (forward m \<theta> (map xyz batch)))
                           (map clip_vector batch) (language_label_mask batch)
                           (map semantic_weight batch))"
    by (rule ext)
      (simp add: contrastive_loss_def contrastive_loss_images_def contrastive_loss_labels_def
        image_weights_def)
  have step: "(optim_state (fst (train_batch m optim F M classifier cfg mc batch st tot)),
          model_params (fst (train_batch m optim F M classifier cfg mc batch st tot))) =
           (let stepped = optim (contrastive_loss m cfg batch) (optim_state st) (model_params st)
            in (fst stepped,
                (snd stepped)\<lparr>temperature := min (temperature (snd stepped)) (np_log_100 m)\<rparr>))"
    using train_batch_success(1,2) [OF assms] by (simp add: Let_def clamp_max_def)
  have totals: "image_loss tot' = image_loss tot
           + compute_loss m (model_params st) (snd (forward m (model_params st) (map xyz batch)))
               (map clip_image_vector batch) (image_label_mask batch)
               (map (\<lambda>d. exp (- exp_decay_coeff cfg * d)) (map distance batch))"
    "label_loss tot' = label_loss tot
           + compute_loss m (model_params st) (fst (forward m (model_params st) (map xyz batch)))
               (map clip_vector batch) (language_label_mask batch) (map semantic_weight batch)"
    "total_loss tot' = total_loss tot + contrastive_loss m cfg batch (model_params st)"
    using train_batch_totals [OF assms]
    by (simp_all add: contrastive_loss_images_def contrastive_loss_labels_def image_weights_def)
  have total: "total_loss tot' = total_loss tot
           + (image_to_label_loss_ratio cfg * (image_loss tot' - image_loss tot)
              + label_to_image_loss_ratio cfg * (label_loss tot' - label_loss tot))"
    using totals by (simp add: loss)
  have other: "model_params (fst (train_batch m optim F' M' classifier' cfg mc' batch
                          (st\<lparr>metric_store := store'\<rparr>) tot2)) =
              model_params (fst (train_batch m optim F M classifier cfg mc batch st tot))
            \<and> optim_state (fst (train_batch m optim F' M' classifier' cfg mc' batch
                          (st\<lparr>metric_store := store'\<rparr>) tot2)) =
              optim_state (fst (train_batch m optim F M classifier cfg mc batch st tot))"
    if "\<not> isl (snd (train_batch m optim F' M' classifier' cfg mc' batch
                          (st\<lparr>metric_store := store'\<rparr>) tot2))"
    for F' M' classifier' mc' store' tot2
  proof -
    have "snd (train_batch m optim F' M' classifier' cfg mc' batch
                 (st\<lparr>metric_store := store'\<rparr>) tot2) =
          Inr (projr (snd (train_batch m optim F' M' classifier' cfg mc' batch
                 (st\<lparr>metric_store := store'\<rparr>) tot2)))"
      using that by simp
    from train_batch_success(1,2) [OF this] train_batch_success(1,2) [OF assms]
    show ?thesis by simp
  qed
  have defaults: "image_to_label_loss_ratio default_config = 1"
    "label_to_image_loss_ratio default_config = 1"
    by (simp_all add: default_config_def IMAGE_TO_LABEL_CLIP_LOSS_SCALE_def
        LABEL_TO_IMAGE_LOSS_SCALE_def)
  show ?thesis
    using step totals(1,2) total other defaults unfolding loss by blast
qed

theorem train_optimizes_weighted_sum_witness:
  "\<not> isl (snd (train_batch example_model example_optim example_functional example_metric
       example_classifier example_config example_calculators example_batch example_state
       initial_totals))
   \<and> model_params (fst (train_batch example_model example_optim example_functional
       example_metric example_classifier example_config example_calculators example_batch
       example_state initial_totals)) = \<lparr>weights = (), temperature = float32_log_100\<rparr>
   \<and> optim_state (fst (train_batch example_model example_optim example_functional
       example_metric example_classifier example_config example_calculators example_batch
       example_state initial_totals)) = 2 * (450 + 1000 * exp (- (1 / 2))) + 3 * 1241"
proof -
  have ok: "\<not> isl (snd (train_batch example_model example_optim example_functional
       example_metric example_classifier example_config example_calculators example_batch
       example_state initial_totals))"
    by (rule example_train_batch)
  then have h: "snd (train_batch example_model example_optim example_functional
       example_metric example_classifier example_config example_calculators example_batch
       example_state initial_totals) =
     Inr (projr (snd (train_batch example_model example_optim example_functional
       example_metric example_classifier example_config example_calculators example_batch
       example_state initial_totals)))"
    by simp
  have ratios: "image_to_label_loss_ratio example_config = 2"
    "label_to_image_loss_ratio example_config = 3"
    "exp_decay_coeff example_config = 1 / 2"
    by (simp_all add: example_config_def)
  have stepped: "example_optim loss seen \<lparr>weights = (), temperature = 0\<rparr> =
      (loss \<lparr>weights = (), temperature = 0\<rparr>, \<lparr>weights = (), temperature = 100\<rparr>)"
    for loss seen
    by (simp add: example_optim_def)
  have bound: "np_log_100 example_model = float32_log_100"
    by (simp add: example_model_def)
  have losses: "compute_loss example_model \<theta> predicted target label_mask ws =
      temperature \<theta> + label_mask ! 0 ! 1 + 10 * sum_list (map sum_list target)
      + 100 * sum_list (map sum_list predicted) + 1000 * hd ws"
    for \<theta> predicted target label_mask ws
    by (simp add: example_model_def)
  have start: "model_params example_state = \<lparr>weights = (), temperature = 0\<rparr>"
    by (simp add: example_state_def)
  have batch: "map xyz example_batch = [[0, 0, 0], [1, 0, 0], [0, 1, 0]]"
    "map clip_image_vector example_batch = [[0, 1], [1, 0], [1, 2]]"
    "map clip_vector example_batch = [[1, 0], [0, 1], [1, 1]]"
    "map distance example_batch = [1, 2, 3]"
    "map semantic_weight example_batch = [1, 1, 1]"
    by (simp_all add: example_defs)
  note run = train_optimizes_weighted_sum [OF h, unfolded Let_def losses
      example_forward example_masks ratios bound start batch]
  show ?thesis
    using run ok float32_log_100_le
    by (simp add: stepped)
qed










section \<open>The epoch report\<close>

text \<open>
  Claim C10. For a loader that yields no batch \<^verbatim>\<open>train\<close> raises
  \<^verbatim>\<open>ZeroDivisionError\<close> and the state, the list of emitted reports included, is
  unchanged. The count \<^verbatim>\<open>total_samples\<close> starts at 0 and, when the loop completes, is the
  number of batches; the averages raise exactly when it is 0, and otherwise every
  reported average is the accumulated total divided by it.
\<close>

theorem train_empty_loader_divides_by_zero:
  "train m optim F M classifier cfg mc [] st = (st, Inl ZeroDivisionError)
   \<and> total_samples initial_totals = 0
   \<and> (snd (train_loop m optim F M classifier cfg mc batches st initial_totals) = Inr tot \<longrightarrow>
        total_samples tot = length batches)
   \<and> (total_samples tot = 0 \<longrightarrow> averages tot temp = Inl ZeroDivisionError)
   \<and> (averages tot temp = Inr to_log \<longrightarrow>
        total_samples tot \<noteq> 0
        \<and> to_log ''train_avg/contrastive_loss_labels'' =
            Some (label_loss tot / real (total_samples tot))
        \<and> to_log ''train_avg/contrastive_loss_images'' =
            Some (image_loss tot / real (total_samples tot))
        \<and> to_log ''train_avg/semseg_loss'' =
            Some (total_classification_loss tot / real (total_samples tot))
        \<and> to_log ''train_avg/loss_sum'' = Some (total_loss tot / real (total_samples tot)))"
proof -
  have "total_samples tot = length batches"
    if "snd (train_loop m optim F M classifier cfg mc batches st initial_totals) = Inr tot"
    using train_loop_total_samples [OF that] by (simp add: initial_totals_def)
  then show ?thesis
    using train_empty_loader [of m optim F M classifier cfg mc st]
      averages_undefined [of tot temp] averages_entries [of tot temp to_log]
    by (simp add: initial_totals_def)
qed

theorem train_empty_loader_divides_by_zero_witness:
  "train example_model example_optim example_functional example_metric example_classifier
     default_config example_calculators [] example_state = (example_state, Inl ZeroDivisionError)
   \<and> total_samples (projr (snd (train_loop example_model example_optim example_functional
        example_metric example_classifier default_config example_calculators [example_batch]
        example_state initial_totals))) = 1
   \<and> averages initial_totals 0 = Inl ZeroDivisionError"
proof -
  have h: "snd (train_loop example_model example_optim example_functional
        example_metric example_classifier default_config example_calculators [example_batch]
        example_state initial_totals) =
      Inr (projr (snd (train_loop example_model example_optim example_functional
        example_metric example_classifier default_config example_calculators [example_batch]
        example_state initial_totals)))"
    using example_train_loop [of default_config initial_totals] by simp
  have z: "total_samples initial_totals = 0"
    by (simp add: initial_totals_def)
  show ?thesis
    using train_empty_loader_divides_by_zero [where m = example_model and optim = example_optim
        and F = example_functional and M = example_metric and classifier = example_classifier
        and cfg = default_config and mc = example_calculators and st = example_state
        and batches = "[example_batch]" and temp = 0
        and tot = "projr (snd (train_loop example_model example_optim example_functional
          example_metric example_classifier default_config example_calculators [example_batch]
          example_state initial_totals))"]
      train_empty_loader_divides_by_zero [where m = example_model and optim = example_optim
        and F = example_functional and M = example_metric and classifier = example_classifier
        and cfg = default_config and mc = example_calculators and st = example_state
        and batches = "[]" and temp = 0 and tot = initial_totals] h z
    by simp
qed









end
